theory Spec2Isabelle
  imports Main "HOL-Library.Word"
begin

unbundle bit_operations_syntax

section \<open>Data model of runtime/derived-type.h\<close>

text \<open>
  The type tables are static, read-only data.  They are modelled as values:
  \<^item> an array argument (a pointer with its element count) is the list of its elements, so
    \<open>components()\<close> and \<open>typeBoundProcedures()\<close> are the lengths of the lists;
  \<^item> a nullable pointer to another table (\<open>const Descriptor *\<close>, the addendum, the nested
    \<open>const DerivedType *\<close>) is an \<open>option\<close>, \<open>None\<close> being \<open>nullptr\<close>.  A type therefore
    reaches its parent, grandparent, ... through finitely many tables: a parent chain that
    loops back to itself, on which the C++ recursion would never end, is not a value of
    the model;
  \<^item> a \<open>char *\<close> is an address (a natural number, \<open>0\<close> being \<open>nullptr\<close>), an
    \<open>std::intptr_t\<close> entry point is an integer (\<open>0\<close> converts to the null function pointer);
  \<^item> flag words are machine words of the declared width.
  Isabelle names cannot end in an underscore, so the private members \<open>flags_\<close>, \<open>bytes_\<close>,
  \<open>initTBP_\<close>, ... are written without it (and prefixed where two classes share a name).
\<close>

type_synonym addr = nat
type_synonym byte = "8 word"

record TypeParameter =
  tp_name :: string
  tp_typeCode :: int
  which :: int
  tp_value :: int

definition IsKindTypeParameter :: "TypeParameter \<Rightarrow> bool" where
  "IsKindTypeParameter p = (which p < 0)"

definition IsLenTypeParameter :: "TypeParameter \<Rightarrow> bool" where
  "IsLenTypeParameter p = (which p \<ge> 0)"

definition StaticValue :: "TypeParameter \<Rightarrow> int" where
  "StaticValue p = tp_value p"

record ExecutableCode =
  host :: int
  device :: int

record TypeBoundProcedure =
  flags :: "32 word"
  finalRank :: "32 word"
  name :: string
  code :: ExecutableCode

text \<open>\<open>enum TypeBoundProcedure::Flag\<close>\<close>

definition INITIALIZER :: "32 word" where "INITIALIZER = 1"
definition ELEMENTAL :: "32 word" where "ELEMENTAL = 2"
definition ASSIGNMENT :: "32 word" where "ASSIGNMENT = 4"
definition ASSUMED_RANK_FINAL :: "32 word" where "ASSUMED_RANK_FINAL = 8"

text \<open>
  \<open>IsFinalForRank\<close>: \<open>(flags & ASSUMED_RANK_FINAL) || ((finalRank >> rank) & 1)\<close>.
  The right operand of \<open>||\<close> is evaluated only when the flag is clear.  \<open>finalRank\<close> is a
  32-bit unsigned value and \<open>rank\<close> an \<open>int\<close>: a shift by a negative count or by 32 or more
  is undefined in C++, which the model returns as \<open>None\<close>.
\<close>

definition IsFinalForRank :: "TypeBoundProcedure \<Rightarrow> int \<Rightarrow> bool option" where
  "IsFinalForRank tbp rank =
     (if flags tbp AND ASSUMED_RANK_FINAL \<noteq> 0 then Some True
      else if 0 \<le> rank \<and> rank < 32
        then Some (drop_bit (nat rank) (finalRank tbp) AND 1 \<noteq> 0)
      else None)"

text \<open>
  Modelled from the spec: \<open>Descriptor\<close> and \<open>DescriptorAddendum\<close> are declared in
  descriptor.h, which is not among the sources.  The spec has them as "a Descriptor/Addendum
  type (dynamic shape + LEN values + embedded type pointer)", consumed for "retrieving a
  nested-type pointer embedded in an addendum".  Of a static descriptor the code reads
  \<open>Addendum()\<close> and, of the addendum, \<open>derivedType()\<close>, both tested against null; only these
  two are modelled.
\<close>

datatype DerivedType = DerivedTypeData
    (dt_name: string) (kindParameters: int) (lenParameters: int)
    (typeParameter: "TypeParameter list")
    (component: "Component list")
    (typeBoundProcedure: "TypeBoundProcedure list")
    (dt_flags: "64 word") (initializer: addr) (bytes: nat) (initTBP: int)
and Component = ComponentData
    (c_name: string) (c_flags: "32 word") (typeCode: int)
    (staticDescriptor: "Descriptor option") (offset: nat)
and Descriptor = DescriptorData (Addendum: "DescriptorAddendum option")
and DescriptorAddendum = DescriptorAddendumData (derivedType: "DerivedType option")

text \<open>\<open>enum Component::Flag\<close>\<close>

definition PARENT :: "32 word" where "PARENT = 1"
definition PRIVATE :: "32 word" where "PRIVATE = 2"
definition IS_DESCRIPTOR :: "32 word" where "IS_DESCRIPTOR = 4"

definition IsParent :: "Component \<Rightarrow> bool" where
  "IsParent c = (c_flags c AND PARENT \<noteq> 0)"

definition IsPrivate :: "Component \<Rightarrow> bool" where
  "IsPrivate c = (c_flags c AND PRIVATE \<noteq> 0)"

definition IsDescriptor :: "Component \<Rightarrow> bool" where
  "IsDescriptor c = (c_flags c AND IS_DESCRIPTOR \<noteq> 0)"

text \<open>\<open>Locate\<close>: the address \<open>dtInstance + offset_\<close>.\<close>

definition Locate :: "Component \<Rightarrow> addr \<Rightarrow> addr" where
  "Locate c dtInstance = dtInstance + offset c"

text \<open>\<open>enum DerivedType::Flag\<close>\<close>

definition SEQUENCE :: "64 word" where "SEQUENCE = 1"
definition BIND_C :: "64 word" where "BIND_C = 2"
definition FINALIZABLE :: "64 word" where "FINALIZABLE = 4"
definition INIT_ZERO :: "64 word" where "INIT_ZERO = 8"
definition INIT_COMPONENT :: "64 word" where "INIT_COMPONENT = 16"

definition components :: "DerivedType \<Rightarrow> int" where
  "components dt = int (length (component dt))"

definition typeBoundProcedures :: "DerivedType \<Rightarrow> int" where
  "typeBoundProcedures dt = int (length (typeBoundProcedure dt))"

definition set_sequence :: "DerivedType \<Rightarrow> DerivedType" where
  "set_sequence dt =
     DerivedTypeData (dt_name dt) (kindParameters dt) (lenParameters dt) (typeParameter dt)
       (component dt) (typeBoundProcedure dt) (dt_flags dt OR SEQUENCE)
       (initializer dt) (bytes dt) (initTBP dt)"

definition set_bind_c :: "DerivedType \<Rightarrow> DerivedType" where
  "set_bind_c dt =
     DerivedTypeData (dt_name dt) (kindParameters dt) (lenParameters dt) (typeParameter dt)
       (component dt) (typeBoundProcedure dt) (dt_flags dt OR BIND_C)
       (initializer dt) (bytes dt) (initTBP dt)"

definition SizeInBytes :: "DerivedType \<Rightarrow> nat" where
  "SizeInBytes dt = bytes dt"

definition IsExtension :: "DerivedType \<Rightarrow> bool" where
  "IsExtension dt = (components dt > 0 \<and> IsParent (component dt ! 0))"

definition IsSequence :: "DerivedType \<Rightarrow> bool" where
  "IsSequence dt = (dt_flags dt AND SEQUENCE \<noteq> 0)"

definition IsBindC :: "DerivedType \<Rightarrow> bool" where
  "IsBindC dt = (dt_flags dt AND BIND_C \<noteq> 0)"

definition IsInitializable :: "DerivedType \<Rightarrow> bool" where
  "IsInitializable dt =
     (initializer dt \<noteq> 0 \<or> initTBP dt \<ge> 0 \<or>
      dt_flags dt AND (INIT_ZERO OR INIT_COMPONENT) \<noteq> 0)"

definition IsInitZero :: "DerivedType \<Rightarrow> bool" where
  "IsInitZero dt = (dt_flags dt AND INIT_ZERO \<noteq> 0)"

definition IsFinalizable :: "DerivedType \<Rightarrow> bool" where
  "IsFinalizable dt = (dt_flags dt AND FINALIZABLE \<noteq> 0)"

section \<open>The constructor (runtime/derived-type.cpp, lines 24-55)\<close>

text \<open>
  The first loop, over the type-bound procedures: \<open>j\<close> is the loop index, the pair is
  \<open>(initTBP_, flags_)\<close>.
\<close>

fun scanProcedures ::
  "TypeBoundProcedure list \<Rightarrow> int \<Rightarrow> int \<times> 64 word \<Rightarrow> int \<times> 64 word" where
  "scanProcedures [] j st = st"
| "scanProcedures (p # tbp) j (initTBP', flags') =
     scanProcedures tbp (j + 1)
       (if flags p AND INITIALIZER \<noteq> 0 then j else initTBP',
        if finalRank p \<noteq> 0 \<or> flags p AND ASSUMED_RANK_FINAL \<noteq> 0
          then flags' OR FINALIZABLE else flags')"

text \<open>The second loop, over the components, run when there is neither image nor initializer.\<close>

fun scanComponents :: "Component list \<Rightarrow> 64 word \<Rightarrow> 64 word" where
  "scanComponents [] flags' = flags'"
| "scanComponents (c # ca) flags' =
     scanComponents ca
       (if IsDescriptor c then flags' OR INIT_ZERO
        else case staticDescriptor c of
          None \<Rightarrow> flags'
        | Some staticDesc \<Rightarrow>
            (case Addendum staticDesc of
               None \<Rightarrow> flags'
             | Some addendum \<Rightarrow>
                 (case derivedType addendum of
                    None \<Rightarrow> flags'
                  | Some ty \<Rightarrow>
                      if IsInitializable ty \<and> \<not> IsInitZero ty
                        then flags' OR INIT_COMPONENT else flags')))"

text \<open>
  \<open>DerivedType::DerivedType(n, kps, lps, tp, cs, ca, tbps, tbp, init, sz)\<close>, the counts
  \<open>cs\<close> and \<open>tbps\<close> being the lengths of \<open>ca\<close> and \<open>tbp\<close>.  The members start from their
  default initializers \<open>flags_{0}\<close> and \<open>initTBP_{-1}\<close>.
\<close>

definition DerivedType_ctor ::
  "string \<Rightarrow> int \<Rightarrow> int \<Rightarrow> TypeParameter list \<Rightarrow> Component list \<Rightarrow>
   TypeBoundProcedure list \<Rightarrow> addr \<Rightarrow> nat \<Rightarrow> DerivedType" where
  "DerivedType_ctor n kps lps tp ca tbp init sz =
     (case scanProcedures tbp 0 (- 1, 0) of
        (initTBP', flags') \<Rightarrow>
          DerivedTypeData n kps lps tp ca tbp
            (if init = 0 \<and> initTBP' < 0 then scanComponents ca flags' else flags')
            init sz initTBP')"

section \<open>Memory and calls\<close>

text \<open>
  The instance is a range of a byte-addressed memory.  Every call the code makes is
  appended to a log and its effect applied to the memory: \<open>std::memcpy\<close> and \<open>std::memset\<close>
  have their library meaning; a procedure behind an entry point and the three operations
  of \<open>Descriptor\<close> (\<open>Initialize\<close>, \<open>Deallocate\<close>, \<open>Destroy\<close>; descriptor.cpp is not among the
  sources) are external code, whose effect on the memory is the parameter \<open>ext\<close>.  External
  calls are taken to return.  \<open>memcpy\<close> reads the source bytes of the memory as it is
  before the copy (for overlapping ranges the C library leaves the result undefined).
\<close>

definition memcpy :: "(addr \<Rightarrow> byte) \<Rightarrow> addr \<Rightarrow> addr \<Rightarrow> nat \<Rightarrow> (addr \<Rightarrow> byte)" where
  "memcpy m dst src n = (\<lambda>a. if dst \<le> a \<and> a < dst + n then m (src + (a - dst)) else m a)"

definition memset :: "(addr \<Rightarrow> byte) \<Rightarrow> addr \<Rightarrow> byte \<Rightarrow> nat \<Rightarrow> (addr \<Rightarrow> byte)" where
  "memset m dst v n = (\<lambda>a. if dst \<le> a \<and> a < dst + n then v else m a)"

datatype call =
    Memcpy addr addr nat
  | Memset addr byte nat
  | HostProcedure int addr
  | DescriptorInitialize Descriptor addr
  | DescriptorDeallocate addr bool
  | DescriptorDestroy Descriptor addr bool

record state =
  memory :: "addr \<Rightarrow> byte"
  calls :: "call list"

type_synonym extern = "call \<Rightarrow> (addr \<Rightarrow> byte) \<Rightarrow> (addr \<Rightarrow> byte)"

fun effect :: "extern \<Rightarrow> call \<Rightarrow> (addr \<Rightarrow> byte) \<Rightarrow> (addr \<Rightarrow> byte)" where
  "effect ext (Memcpy dst src n) m = memcpy m dst src n"
| "effect ext (Memset dst v n) m = memset m dst v n"
| "effect ext c m = ext c m"

definition perform :: "extern \<Rightarrow> call \<Rightarrow> state \<Rightarrow> state" where
  "perform ext c s = \<lparr>memory = effect ext c (memory s), calls = calls s @ [c]\<rparr>"

section \<open>Initialize (lines 57-79)\<close>

text \<open>The loop of lines 73-77.\<close>

fun InitializeComponents :: "extern \<Rightarrow> Component list \<Rightarrow> addr \<Rightarrow> state \<Rightarrow> state" where
  "InitializeComponents ext [] instance s = s"
| "InitializeComponents ext (c # ca) instance s =
     InitializeComponents ext ca instance
       (case staticDescriptor c of
          None \<Rightarrow> s
        | Some staticDesc \<Rightarrow> perform ext (DescriptorInitialize staticDesc (Locate c instance)) s)"

text \<open>
  \<open>typeBoundProcedure_[initTBP_]\<close> is read only when \<open>initTBP_ >= 0\<close>; lemma
  \<open>ctor_initTBP_range\<close> below shows that the index of a constructed type is in range.
\<close>

definition Initialize :: "extern \<Rightarrow> DerivedType \<Rightarrow> addr \<Rightarrow> state \<Rightarrow> state" where
  "Initialize ext dt instance s =
     (if initializer dt \<noteq> 0
        then perform ext (Memcpy instance (initializer dt) (bytes dt)) s
      else if initTBP dt \<ge> 0 \<and>
              host (code (typeBoundProcedure dt ! nat (initTBP dt))) \<noteq> 0
        then perform ext
               (HostProcedure (host (code (typeBoundProcedure dt ! nat (initTBP dt)))) instance) s
      else
        let s1 = (if dt_flags dt AND INIT_ZERO \<noteq> 0
                    then perform ext (Memset instance 0 (bytes dt)) s else s)
        in if dt_flags dt AND INIT_COMPONENT \<noteq> 0
             then InitializeComponents ext (component dt) instance s1 else s1)"

section \<open>Destruction (lines 81-118)\<close>

text \<open>The loop of \<open>DestroyNonParentComponents\<close>.\<close>

fun DestroyComponents ::
  "extern \<Rightarrow> Component list \<Rightarrow> addr \<Rightarrow> bool \<Rightarrow> state \<Rightarrow> state" where
  "DestroyComponents ext [] instance finalize s = s"
| "DestroyComponents ext (c # ca) instance finalize s =
     DestroyComponents ext ca instance finalize
       (if IsParent c then s
        else if IsDescriptor c
          then perform ext (DescriptorDeallocate (Locate c instance) finalize) s
        else case staticDescriptor c of
          None \<Rightarrow> s
        | Some staticDescriptor' \<Rightarrow>
            perform ext (DescriptorDestroy staticDescriptor' (Locate c instance) finalize) s)"

definition DestroyNonParentComponents ::
  "extern \<Rightarrow> DerivedType \<Rightarrow> addr \<Rightarrow> bool \<Rightarrow> state \<Rightarrow> state" where
  "DestroyNonParentComponents ext dt instance finalize s =
     DestroyComponents ext (component dt) instance finalize s"

text \<open>The loop of lines 98-105: the rank-0 elemental finalizers.\<close>

fun CallFinalizers :: "extern \<Rightarrow> TypeBoundProcedure list \<Rightarrow> addr \<Rightarrow> state \<Rightarrow> state" where
  "CallFinalizers ext [] instance s = s"
| "CallFinalizers ext (tbp # rest) instance s =
     CallFinalizers ext rest instance
       (if flags tbp AND ELEMENTAL \<noteq> 0 \<and> finalRank tbp AND 1 \<noteq> 0
          then (if host (code tbp) \<noteq> 0
                  then perform ext (HostProcedure (host (code tbp)) instance) s else s)
        else s)"

text \<open>
  Modelled from the spec: \<open>RUNTIME_CHECK(terminator, pred)\<close> comes from terminator.h, which
  is not among the sources.  The spec: an internal inconsistency "immediately terminates
  the process with a diagnostic naming the failing check"; the report is "fatal,
  non-returning".  The model returns the text of the failed predicate with the state
  reached, and nothing runs after it.
\<close>

datatype error = CheckFailed string

function DestroyScalarInstance ::
  "extern \<Rightarrow> DerivedType \<Rightarrow> addr \<Rightarrow> bool \<Rightarrow> state \<Rightarrow> (error \<times> state) + state" where
  "DestroyScalarInstance ext dt instance finalize s =
     (let s1 = (if finalize \<and> IsFinalizable dt
                  then CallFinalizers ext (typeBoundProcedure dt) instance s else s);
          s2 = DestroyNonParentComponents ext dt instance finalize s1
      in if IsExtension dt then
           (case staticDescriptor (component dt ! 0) of
              None \<Rightarrow> Inl (CheckFailed ''staticParentDescriptor'', s2)
            | Some staticParentDescriptor \<Rightarrow>
                (case Addendum staticParentDescriptor of
                   None \<Rightarrow> Inl (CheckFailed ''parentAddendum'', s2)
                 | Some parentAddendum \<Rightarrow>
                     (case derivedType parentAddendum of
                        None \<Rightarrow> Inl (CheckFailed ''parentType'', s2)
                      | Some parentType \<Rightarrow>
                          DestroyScalarInstance ext parentType instance finalize s2)))
         else Inr s2)"
  by pat_completeness auto
termination
proof (relation "measure (\<lambda>(ext, dt, instance, finalize, s). size dt)")
  fix ext :: extern and dt p :: DerivedType and inst :: addr and finalize :: bool
    and s s2 :: state and d a
  assume "IsExtension dt" and "staticDescriptor (component dt ! 0) = Some d"
    and "Addendum d = Some a" and "derivedType a = Some p"
  then obtain c ca where ca: "component dt = c # ca" and c: "staticDescriptor c = Some d"
    and a: "Addendum d = Some a" "derivedType a = Some p"
    by (cases "component dt") (simp_all add: IsExtension_def components_def)
  from c a have "size p < size c"
    by (cases c, cases d, cases a) simp
  also have "\<dots> < size dt" using ca by (cases dt) simp
  finally show "((ext, p, inst, finalize, s2), (ext, dt, inst, finalize, s))
                  \<in> measure (\<lambda>(ext, dt, instance, finalize, s). size dt)"
    by simp
qed simp

declare DestroyScalarInstance.simps [simp del]

section \<open>Vocabulary of the properties\<close>

text \<open>
  The nested type a component's static descriptor names: the chain
  \<open>staticDescriptor()\<close>, \<open>Addendum()\<close>, \<open>derivedType()\<close> that the constructor (lines 43-46)
  and \<open>DestroyScalarInstance\<close> (lines 109-115) follow, \<open>None\<close> when a pointer is null.
\<close>

definition nestedType :: "Component \<Rightarrow> DerivedType option" where
  "nestedType c =
     (case staticDescriptor c of
        None \<Rightarrow> None
      | Some d \<Rightarrow> (case Addendum d of None \<Rightarrow> None | Some a \<Rightarrow> derivedType a))"

text \<open>
  A component that makes the constructor set \<open>INIT_COMPONENT\<close>: not itself a descriptor,
  with a nested type that is initializable and not zero-initializable.
\<close>

definition needsComponentInit :: "Component \<Rightarrow> bool" where
  "needsComponentInit c =
     (\<not> IsDescriptor c \<and>
      (case nestedType c of
         None \<Rightarrow> False
       | Some ty \<Rightarrow> IsInitializable ty \<and> \<not> IsInitZero ty))"

definition IsInitializerProcedure :: "TypeBoundProcedure \<Rightarrow> bool" where
  "IsInitializerProcedure p = (flags p AND INITIALIZER \<noteq> 0)"

text \<open>The parent of an extended type, and the types above it, nearest first.\<close>

definition parentType :: "DerivedType \<Rightarrow> DerivedType option" where
  "parentType dt = (if IsExtension dt then nestedType (component dt ! 0) else None)"

function ancestors :: "DerivedType \<Rightarrow> DerivedType list" where
  "ancestors dt = (case parentType dt of None \<Rightarrow> [] | Some p \<Rightarrow> p # ancestors p)"
  by pat_completeness auto
termination
proof (relation "measure size")
  fix dt p
  assume "parentType dt = Some p"
  then have ext: "IsExtension dt" and nt: "nestedType (component dt ! 0) = Some p"
    by (simp_all add: parentType_def split: if_splits)
  from ext obtain c ca where ca: "component dt = c # ca"
    by (cases "component dt") (simp_all add: IsExtension_def components_def)
  from nt ca obtain d a where "staticDescriptor c = Some d" "Addendum d = Some a"
    "derivedType a = Some p"
    by (auto simp add: nestedType_def split: option.splits)
  then have "size p < size c"
    by (cases c, cases d, cases a) simp
  also have "\<dots> < size dt" using ca by (cases dt) simp
  finally show "(p, dt) \<in> measure size" by simp
qed simp

declare ancestors.simps [simp del]

definition inheritanceChain :: "DerivedType \<Rightarrow> DerivedType list" where
  "inheritanceChain dt = dt # ancestors dt"

text \<open>Every extended type of the chain names its parent: no \<open>RUNTIME_CHECK\<close> fails.\<close>

definition usableParents :: "DerivedType \<Rightarrow> bool" where
  "usableParents dt =
     list_all (\<lambda>t. IsExtension t \<longrightarrow> parentType t \<noteq> None) (inheritanceChain dt)"

text \<open>A list of calls performed in order.\<close>

definition performAll :: "extern \<Rightarrow> call list \<Rightarrow> state \<Rightarrow> state" where
  "performAll ext cs s = foldl (\<lambda>s' c. perform ext c s') s cs"

text \<open>
  The finalizers one level invokes: when \<open>finalize\<close> is set and the type is finalizable,
  the procedures flagged elemental with bit 0 of the bitmask set and a non-null host
  entry point, in table order.
\<close>

definition IsScalarFinalizer :: "TypeBoundProcedure \<Rightarrow> bool" where
  "IsScalarFinalizer p = (flags p AND ELEMENTAL \<noteq> 0 \<and> finalRank p AND 1 \<noteq> 0)"

definition finalizerCalls :: "DerivedType \<Rightarrow> addr \<Rightarrow> bool \<Rightarrow> call list" where
  "finalizerCalls dt instance finalize =
     (if finalize \<and> IsFinalizable dt
        then map (\<lambda>p. HostProcedure (host (code p)) instance)
               (filter (\<lambda>p. IsScalarFinalizer p \<and> host (code p) \<noteq> 0) (typeBoundProcedure dt))
      else [])"

text \<open>
  The destruction of one component: nothing for the parent component; the deallocation of
  a descriptor-valued component; the destruction of a component with a static descriptor;
  nothing for a component that has neither.
\<close>

definition componentCall :: "addr \<Rightarrow> bool \<Rightarrow> Component \<Rightarrow> call list" where
  "componentCall instance finalize c =
     (if IsParent c then []
      else if IsDescriptor c then [DescriptorDeallocate (Locate c instance) finalize]
      else case staticDescriptor c of
        None \<Rightarrow> []
      | Some d \<Rightarrow> [DescriptorDestroy d (Locate c instance) finalize])"

definition componentCalls :: "DerivedType \<Rightarrow> addr \<Rightarrow> bool \<Rightarrow> call list" where
  "componentCalls dt instance finalize =
     concat (map (componentCall instance finalize) (component dt))"

definition levelCalls :: "addr \<Rightarrow> bool \<Rightarrow> DerivedType \<Rightarrow> call list" where
  "levelCalls instance finalize dt =
     finalizerCalls dt instance finalize @ componentCalls dt instance finalize"

text \<open>
  Modelled from the spec: \<open>DerivedType::Extends\<close> is declared in derived-type.h (line 189)
  and defined nowhere in the sources.  The spec: "\<open>Extends\<close> walks the chain of parent
  components' nested-type pointers and reports whether the given type appears in it".
  The walk ends where a type is no extension or a pointer on the way to its parent is
  null; a type of the chain is the given one when the two tables are equal.
\<close>

function Extends :: "DerivedType \<Rightarrow> DerivedType \<Rightarrow> bool" where
  "Extends a b = (case parentType a of None \<Rightarrow> False | Some p \<Rightarrow> p = b \<or> Extends p b)"
  by pat_completeness auto
termination
proof (relation "measure (\<lambda>(a, b). size a)")
  fix a b :: DerivedType and p
  assume "parentType a = Some p"
  then have ext: "IsExtension a" and nt: "nestedType (component a ! 0) = Some p"
    by (simp_all add: parentType_def split: if_splits)
  from ext obtain c ca where ca: "component a = c # ca"
    by (cases "component a") (simp_all add: IsExtension_def components_def)
  from nt ca obtain d ad where "staticDescriptor c = Some d" "Addendum d = Some ad"
    "derivedType ad = Some p"
    by (auto simp add: nestedType_def split: option.splits)
  then have "size p < size c"
    by (cases c, cases d, cases ad) simp
  also have "\<dots> < size a" using ca by (cases a) simp
  finally show "((p, b), (a, b)) \<in> measure (\<lambda>(a, b). size a)" by simp
qed simp

declare Extends.simps [simp del]

section \<open>Concrete tables\<close>

text \<open>Procedures, components, types and a memory on which the theorems are evaluated.\<close>

definition plain_procedure :: TypeBoundProcedure where
  "plain_procedure =
     \<lparr>flags = 0, finalRank = 0, name = ''plain'', code = \<lparr>host = 12288, device = 0\<rparr>\<rparr>"

definition rank0_final :: TypeBoundProcedure where
  "rank0_final =
     \<lparr>flags = 0, finalRank = 1, name = ''final0'', code = \<lparr>host = 4096, device = 0\<rparr>\<rparr>"

definition assumed_rank_final :: TypeBoundProcedure where
  "assumed_rank_final =
     \<lparr>flags = 8, finalRank = 0, name = ''finalAny'', code = \<lparr>host = 8192, device = 0\<rparr>\<rparr>"

definition elemental_final :: "int \<Rightarrow> TypeBoundProcedure" where
  "elemental_final entry =
     \<lparr>flags = 2, finalRank = 1, name = ''finalElemental'', code = \<lparr>host = entry, device = 0\<rparr>\<rparr>"

definition vector_final :: TypeBoundProcedure where
  "vector_final =
     \<lparr>flags = 2, finalRank = 2, name = ''finalVector'', code = \<lparr>host = 16384, device = 0\<rparr>\<rparr>"

definition initializer_procedure :: "int \<Rightarrow> TypeBoundProcedure" where
  "initializer_procedure entry =
     \<lparr>flags = 1, finalRank = 0, name = ''init'', code = \<lparr>host = entry, device = 0\<rparr>\<rparr>"

definition plain_component :: Component where
  "plain_component = ComponentData ''i'' 0 0 None 0"

definition allocatable_component :: "nat \<Rightarrow> Component" where
  "allocatable_component off = ComponentData ''a'' 4 0 None off"

definition typed_component :: "32 word \<Rightarrow> DerivedType \<Rightarrow> nat \<Rightarrow> Component" where
  "typed_component fl ty off =
     ComponentData ''t'' fl 0 (Some (DescriptorData (Some (DescriptorAddendumData (Some ty))))) off"

definition image_type :: DerivedType where
  "image_type = DerivedType_ctor ''inner'' 0 0 [] [] [] 1000 4"

definition base_type :: DerivedType where
  "base_type =
     DerivedType_ctor ''base'' 0 0 [] [allocatable_component 8] [elemental_final 4096] 0 64"

definition child_type :: DerivedType where
  "child_type =
     DerivedType_ctor ''child'' 0 0 []
       [typed_component 1 base_type 0, plain_component, typed_component 0 image_type 64]
       [vector_final, elemental_final 8192] 0 72"

definition grandchild_type :: DerivedType where
  "grandchild_type =
     DerivedType_ctor ''grandchild'' 0 0 []
       [typed_component 1 child_type 0, allocatable_component 72]
       [elemental_final 20480, plain_procedure, elemental_final 24576] 0 136"

definition orphan_type :: "Descriptor option \<Rightarrow> DerivedType" where
  "orphan_type d =
     DerivedType_ctor ''orphan'' 0 0 []
       [ComponentData ''parent'' 1 0 d 0, allocatable_component 8] [elemental_final 4096] 0 64"

definition image_memory :: "addr \<Rightarrow> byte" where
  "image_memory a =
     (if a = 1000 then 17 else if a = 1001 then 34 else if a = 1002 then 51
      else if a = 1003 then 68 else 255)"

definition start_state :: state where
  "start_state = \<lparr>memory = image_memory, calls = []\<rparr>"

text \<open>External code that leaves the memory alone, and one that stamps its argument.\<close>

definition inert_extern :: extern where
  "inert_extern c m = m"

definition stamping_extern :: extern where
  "stamping_extern c m =
     (case c of
        HostProcedure f a \<Rightarrow> m(a := 170)
      | DescriptorInitialize d a \<Rightarrow> m(a := 187)
      | _ \<Rightarrow> m)"

section \<open>Flag words\<close>

lemma test_bit64: "(w AND (2::64 word) ^ n \<noteq> 0) = bit w n"
  by (simp add: and_exp_eq_0_iff_not_bit)

lemma FINALIZABLE_test: "(w AND FINALIZABLE \<noteq> 0) = bit w 2"
  using test_bit64 [of w 2] by (simp add: FINALIZABLE_def)

lemma INIT_ZERO_test: "(w AND INIT_ZERO \<noteq> 0) = bit w 3"
  using test_bit64 [of w 3] by (simp add: INIT_ZERO_def)

lemma INIT_COMPONENT_test: "(w AND INIT_COMPONENT \<noteq> 0) = bit w 4"
  using test_bit64 [of w 4] by (simp add: INIT_COMPONENT_def)

lemma bit_or_FINALIZABLE: "bit (w OR FINALIZABLE) n = (bit w n \<or> n = 2)"
  using bit_exp_iff [where ?'a = "64 word", of 2 n]
  by (auto simp add: FINALIZABLE_def bit_or_iff)

lemma bit_or_INIT_ZERO: "bit (w OR INIT_ZERO) n = (bit w n \<or> n = 3)"
  using bit_exp_iff [where ?'a = "64 word", of 3 n]
  by (auto simp add: INIT_ZERO_def bit_or_iff)

lemma bit_or_INIT_COMPONENT: "bit (w OR INIT_COMPONENT) n = (bit w n \<or> n = 4)"
  using bit_exp_iff [where ?'a = "64 word", of 4 n]
  by (auto simp add: INIT_COMPONENT_def bit_or_iff)

lemma shift_test: "(drop_bit n (w::32 word) AND 1 \<noteq> 0) = bit w n"
  by (simp add: and_one_eq bit_iff_odd_drop_bit mod_2_eq_odd)

section \<open>The constructor's loops\<close>

lemma scanProcedures_finalizable:
  "bit (snd (scanProcedures tbp j (i, fl))) 2 =
     (bit fl 2 \<or> (\<exists>p\<in>set tbp. finalRank p \<noteq> 0 \<or> flags p AND ASSUMED_RANK_FINAL \<noteq> 0))"
  by (induction tbp arbitrary: j i fl) (auto simp add: bit_or_FINALIZABLE)

lemma scanProcedures_other_bits:
  "n \<noteq> 2 \<Longrightarrow> bit (snd (scanProcedures tbp j (i, fl))) n = bit fl n"
  by (induction tbp arbitrary: j i fl) (auto simp add: bit_or_FINALIZABLE)

lemma scanComponents_other_bits:
  "n \<noteq> 3 \<Longrightarrow> n \<noteq> 4 \<Longrightarrow> bit (scanComponents ca fl) n = bit fl n"
  by (induction ca arbitrary: fl)
     (auto simp add: bit_or_INIT_ZERO bit_or_INIT_COMPONENT split: option.splits)

lemma scanComponents_init_zero:
  "bit (scanComponents ca fl) 3 = (bit fl 3 \<or> (\<exists>c\<in>set ca. IsDescriptor c))"
  by (induction ca arbitrary: fl)
     (auto simp add: bit_or_INIT_ZERO bit_or_INIT_COMPONENT split: option.splits)

lemma scanComponents_init_component:
  "bit (scanComponents ca fl) 4 = (bit fl 4 \<or> (\<exists>c\<in>set ca. needsComponentInit c))"
  by (induction ca arbitrary: fl)
     (auto simp add: bit_or_INIT_ZERO bit_or_INIT_COMPONENT needsComponentInit_def
        nestedType_def split: option.splits)

lemma scanProcedures_no_initializer:
  "\<forall>p\<in>set tbp. \<not> IsInitializerProcedure p \<Longrightarrow> fst (scanProcedures tbp j (i, fl)) = i"
  by (induction tbp arbitrary: j i fl) (auto simp add: IsInitializerProcedure_def)

lemma scanProcedures_append:
  "scanProcedures (xs @ ys) j st =
     scanProcedures ys (j + int (length xs)) (scanProcedures xs j st)"
proof (induction xs arbitrary: j st)
  case Nil
  then show ?case by simp
next
  case (Cons x xs)
  obtain i fl where st: "st = (i, fl)" by (cases st)
  show ?case unfolding st by (simp add: Cons.IH algebra_simps)
qed

lemma scanProcedures_last_initializer:
  assumes "IsInitializerProcedure p" and "\<forall>q\<in>set post. \<not> IsInitializerProcedure q"
  shows "fst (scanProcedures (pre @ p # post) j st) = j + int (length pre)"
proof -
  obtain i fl where pre: "scanProcedures pre j st = (i, fl)"
    by (cases "scanProcedures pre j st")
  show ?thesis
    using assms
    by (simp add: scanProcedures_append pre scanProcedures_no_initializer
          IsInitializerProcedure_def)
qed

lemma ctor_fields:
  "initializer (DerivedType_ctor n kps lps tp ca tbp init sz) = init"
  "bytes (DerivedType_ctor n kps lps tp ca tbp init sz) = sz"
  "component (DerivedType_ctor n kps lps tp ca tbp init sz) = ca"
  "typeBoundProcedure (DerivedType_ctor n kps lps tp ca tbp init sz) = tbp"
  "initTBP (DerivedType_ctor n kps lps tp ca tbp init sz) = fst (scanProcedures tbp 0 (- 1, 0))"
  by (simp_all add: DerivedType_ctor_def split: prod.splits)

lemma ctor_flags:
  "dt_flags (DerivedType_ctor n kps lps tp ca tbp init sz) =
     (if init = 0 \<and> fst (scanProcedures tbp 0 (- 1, 0)) < 0
        then scanComponents ca (snd (scanProcedures tbp 0 (- 1, 0)))
      else snd (scanProcedures tbp 0 (- 1, 0)))"
  by (simp add: DerivedType_ctor_def split: prod.splits)

lemma ctor_finalizable:
  "IsFinalizable (DerivedType_ctor n kps lps tp ca tbp init sz) =
     (\<exists>p\<in>set tbp. finalRank p \<noteq> 0 \<or> flags p AND ASSUMED_RANK_FINAL \<noteq> 0)"
  by (simp add: IsFinalizable_def FINALIZABLE_test ctor_flags scanComponents_other_bits
        scanProcedures_finalizable)

lemma ctor_initTBP_none:
  "\<forall>p\<in>set tbp. \<not> IsInitializerProcedure p \<Longrightarrow>
   initTBP (DerivedType_ctor n kps lps tp ca tbp init sz) = - 1"
  by (simp add: ctor_fields scanProcedures_no_initializer)

lemma ctor_initTBP_last:
  assumes "\<exists>p\<in>set tbp. IsInitializerProcedure p"
  shows "\<exists>pre p post. tbp = pre @ p # post \<and> IsInitializerProcedure p \<and>
           (\<forall>q\<in>set post. \<not> IsInitializerProcedure q) \<and>
           initTBP (DerivedType_ctor n kps lps tp ca tbp init sz) = int (length pre)"
proof -
  from split_list_last_prop [OF assms]
  obtain pre p post where sp: "tbp = pre @ p # post" "IsInitializerProcedure p"
    "\<forall>q\<in>set post. \<not> IsInitializerProcedure q" by blast
  then have "initTBP (DerivedType_ctor n kps lps tp ca tbp init sz) = int (length pre)"
    using scanProcedures_last_initializer [of p post pre 0 "(- 1, 0)"]
    by (simp add: ctor_fields)
  with sp show ?thesis by blast
qed

text \<open>The index the constructor caches is \<open>-1\<close> or an index of the procedure table.\<close>

lemma ctor_initTBP_range:
  "initTBP (DerivedType_ctor n kps lps tp ca tbp init sz) = - 1 \<or>
   (0 \<le> initTBP (DerivedType_ctor n kps lps tp ca tbp init sz) \<and>
    initTBP (DerivedType_ctor n kps lps tp ca tbp init sz) < int (length tbp))"
proof (cases "\<exists>p\<in>set tbp. IsInitializerProcedure p")
  case True
  from ctor_initTBP_last [OF True, of n kps lps tp ca init sz] show ?thesis by auto
next
  case False
  then show ?thesis by (simp add: ctor_initTBP_none)
qed

section \<open>Memory\<close>

lemma memcpy_inside: "i < n \<Longrightarrow> memcpy m dst src n (dst + i) = m (src + i)"
  by (simp add: memcpy_def)

lemma memcpy_outside: "a < dst \<or> dst + n \<le> a \<Longrightarrow> memcpy m dst src n a = m a"
  by (auto simp add: memcpy_def)

lemma memset_inside: "i < n \<Longrightarrow> memset m dst v n (dst + i) = v"
  by (simp add: memset_def)

lemma memset_outside: "a < dst \<or> dst + n \<le> a \<Longrightarrow> memset m dst v n a = m a"
  by (auto simp add: memset_def)

section \<open>Initialize\<close>

text \<open>
  C1.  A type constructed with a non-null flat default image: whatever its components and
  procedures are, \<open>Initialize\<close> makes one call, the \<open>memcpy\<close> of \<open>sz\<close> bytes from the image
  to the instance, and nothing else.  Each of the \<open>sz\<close> bytes of the instance then holds
  the image's byte, and the memory outside the instance is as before.
\<close>

theorem Initialize_flat_image:
  assumes "init \<noteq> 0"
  shows "Initialize ext (DerivedType_ctor n kps lps tp ca tbp init sz) instance s =
           \<lparr>memory = memcpy (memory s) instance init sz,
            calls = calls s @ [Memcpy instance init sz]\<rparr> \<and>
         (\<forall>i < sz.
            memory (Initialize ext (DerivedType_ctor n kps lps tp ca tbp init sz) instance s)
              (instance + i) = memory s (init + i)) \<and>
         (\<forall>a. a < instance \<or> instance + sz \<le> a \<longrightarrow>
            memory (Initialize ext (DerivedType_ctor n kps lps tp ca tbp init sz) instance s) a
              = memory s a)"
  using assms
  by (simp add: Initialize_def ctor_fields perform_def memcpy_inside memcpy_outside)

theorem Initialize_flat_image_witness:
  "Initialize stamping_extern
     (DerivedType_ctor ''t'' 0 0 []
        [allocatable_component 0, typed_component 0 image_type 64]
        [initializer_procedure 4096, rank0_final] 1000 4) 2000 start_state =
     \<lparr>memory = memcpy image_memory 2000 1000 4, calls = [Memcpy 2000 1000 4]\<rparr> \<and>
   map (memory (Initialize stamping_extern
     (DerivedType_ctor ''t'' 0 0 []
        [allocatable_component 0, typed_component 0 image_type 64]
        [initializer_procedure 4096, rank0_final] 1000 4) 2000 start_state))
     [1999, 2000, 2001, 2002, 2003, 2004] = [255, 17, 34, 51, 68, 255]"
proof -
  have h: "(1000::nat) \<noteq> 0" by simp
  note t = Initialize_flat_image [OF h, of stamping_extern "''t''" 0 0 "[]"
      "[allocatable_component 0, typed_component 0 image_type 64]"
      "[initializer_procedure 4096, rank0_final]" 4 2000 start_state]
  from t have eq: "Initialize stamping_extern
     (DerivedType_ctor ''t'' 0 0 []
        [allocatable_component 0, typed_component 0 image_type 64]
        [initializer_procedure 4096, rank0_final] 1000 4) 2000 start_state =
     \<lparr>memory = memcpy image_memory 2000 1000 4, calls = [Memcpy 2000 1000 4]\<rparr>"
    by (simp add: start_state_def)
  show ?thesis
    unfolding eq by (simp add: memcpy_def image_memory_def)
qed

text \<open>
  C5.  A type constructed with no flat image, no procedure flagged initializer and at
  least one component flagged is-descriptor: \<open>Initialize\<close> zero-fills the entire instance.
  Its first call is the \<open>memset\<close> of \<open>sz\<close> bytes, after which each of the \<open>sz\<close> bytes of
  the instance is \<open>0\<close> and the memory outside it is as before.  The fill is the whole of
  \<open>Initialize\<close>, and the bytes are \<open>0\<close> on return, unless a component also asks for its own
  initialization, which then runs on the zero-filled instance (lines 72-78).
\<close>

theorem Initialize_zero_fill:
  assumes "init = 0"
    and "\<forall>p\<in>set tbp. \<not> IsInitializerProcedure p"
    and "\<exists>c\<in>set ca. IsDescriptor c"
  shows "Initialize ext (DerivedType_ctor n kps lps tp ca tbp init sz) instance s =
           (if \<exists>c\<in>set ca. needsComponentInit c
              then InitializeComponents ext ca instance (perform ext (Memset instance 0 sz) s)
            else perform ext (Memset instance 0 sz) s) \<and>
         calls (perform ext (Memset instance 0 sz) s) = calls s @ [Memset instance 0 sz] \<and>
         (\<forall>i < sz. memory (perform ext (Memset instance 0 sz) s) (instance + i) = 0) \<and>
         (\<forall>a. a < instance \<or> instance + sz \<le> a \<longrightarrow>
            memory (perform ext (Memset instance 0 sz) s) a = memory s a) \<and>
         (\<not> (\<exists>c\<in>set ca. needsComponentInit c) \<longrightarrow>
            (\<forall>i < sz.
               memory (Initialize ext (DerivedType_ctor n kps lps tp ca tbp init sz) instance s)
                 (instance + i) = 0))"
proof -
  let ?dt = "DerivedType_ctor n kps lps tp ca tbp init sz"
  have "initTBP ?dt = - 1" using assms(2) by (rule ctor_initTBP_none)
  moreover have "dt_flags ?dt = scanComponents ca (snd (scanProcedures tbp 0 (- 1, 0)))"
    using assms(1,2) by (simp add: ctor_flags scanProcedures_no_initializer)
  moreover have "bit (scanComponents ca (snd (scanProcedures tbp 0 (- 1, 0)))) 3"
    using assms(3) by (simp add: scanComponents_init_zero)
  moreover have "bit (scanComponents ca (snd (scanProcedures tbp 0 (- 1, 0)))) 4
      = (\<exists>c\<in>set ca. needsComponentInit c)"
    by (simp add: scanComponents_init_component scanProcedures_other_bits)
  ultimately show ?thesis
    using assms(1)
    by (simp add: Initialize_def ctor_fields INIT_ZERO_test INIT_COMPONENT_test
          perform_def memset_inside memset_outside)
qed

theorem Initialize_zero_fill_witness:
  "Initialize inert_extern
     (DerivedType_ctor ''t'' 0 0 [] [plain_component, allocatable_component 8]
        [plain_procedure, rank0_final] 0 4) 2000 start_state =
     \<lparr>memory = memset image_memory 2000 0 4, calls = [Memset 2000 0 4]\<rparr> \<and>
   map (memset image_memory 2000 0 4) [1999, 2000, 2001, 2002, 2003, 2004] =
     [255, 0, 0, 0, 0, 255] \<and>
   calls (Initialize stamping_extern
     (DerivedType_ctor ''t'' 0 0 [] [allocatable_component 8, typed_component 0 image_type 2]
        [] 0 4) 2000 start_state) =
     [Memset 2000 0 4,
      DescriptorInitialize (DescriptorData (Some (DescriptorAddendumData (Some image_type))))
        2002] \<and>
   map (memory (Initialize stamping_extern
     (DerivedType_ctor ''t'' 0 0 [] [allocatable_component 8, typed_component 0 image_type 2]
        [] 0 4) 2000 start_state)) [1999, 2000, 2001, 2002, 2003, 2004] =
     [255, 0, 0, 187, 0, 255]"
proof -
  have h1: "(0::nat) = 0" by simp
  have h2: "\<forall>p\<in>set [plain_procedure, rank0_final]. \<not> IsInitializerProcedure p"
    by (simp add: IsInitializerProcedure_def plain_procedure_def rank0_final_def)
  have h3: "\<exists>c\<in>set [plain_component, allocatable_component 8]. IsDescriptor c"
    by (simp add: IsDescriptor_def allocatable_component_def IS_DESCRIPTOR_def)
  have h4: "\<forall>p\<in>set ([]::TypeBoundProcedure list). \<not> IsInitializerProcedure p"
    by simp
  have h5: "\<exists>c\<in>set [allocatable_component 8, typed_component 0 image_type 2]. IsDescriptor c"
    by (simp add: IsDescriptor_def allocatable_component_def IS_DESCRIPTOR_def)
  have n1: "\<not> needsComponentInit plain_component"
    by (simp add: needsComponentInit_def nestedType_def plain_component_def)
  have n2: "\<not> needsComponentInit (allocatable_component 8)"
    by (simp add: needsComponentInit_def nestedType_def allocatable_component_def)
  have n3: "needsComponentInit (typed_component 0 image_type 2)"
    by (simp add: needsComponentInit_def nestedType_def typed_component_def IsDescriptor_def
          image_type_def IsInitializable_def IsInitZero_def DerivedType_ctor_def)
  note a = Initialize_zero_fill [OF h1 h2 h3, of inert_extern "''t''" 0 0 "[]" 4 2000 start_state]
  note b = Initialize_zero_fill [OF h1 h4 h5, of stamping_extern "''t''" 0 0 "[]" 4 2000
      start_state]
  have "map (memset image_memory 2000 0 4) [1999, 2000, 2001, 2002, 2003, 2004] =
     [255, 0, 0, 0, 0, 255]"
    by (simp add: memset_def image_memory_def)
  moreover from a have "Initialize inert_extern
     (DerivedType_ctor ''t'' 0 0 [] [plain_component, allocatable_component 8]
        [plain_procedure, rank0_final] 0 4) 2000 start_state =
     \<lparr>memory = memset image_memory 2000 0 4, calls = [Memset 2000 0 4]\<rparr>"
    by (simp add: n1 n2 perform_def start_state_def)
  moreover from b have r: "Initialize stamping_extern
       (DerivedType_ctor ''t'' 0 0 [] [allocatable_component 8, typed_component 0 image_type 2]
          [] 0 4) 2000 start_state =
       InitializeComponents stamping_extern
         [allocatable_component 8, typed_component 0 image_type 2] 2000
         (perform stamping_extern (Memset 2000 0 4) start_state)"
    by (simp add: n2 n3)
  moreover have "calls (InitializeComponents stamping_extern
         [allocatable_component 8, typed_component 0 image_type 2] 2000
         (perform stamping_extern (Memset 2000 0 4) start_state)) =
     [Memset 2000 0 4,
      DescriptorInitialize (DescriptorData (Some (DescriptorAddendumData (Some image_type))))
        2002]"
    by (simp add: perform_def start_state_def Locate_def allocatable_component_def
          typed_component_def)
  moreover have "map (memory (InitializeComponents stamping_extern
         [allocatable_component 8, typed_component 0 image_type 2] 2000
         (perform stamping_extern (Memset 2000 0 4) start_state)))
       [1999, 2000, 2001, 2002, 2003, 2004] = [255, 0, 0, 187, 0, 255]"
    by (simp add: perform_def start_state_def stamping_extern_def Locate_def
          allocatable_component_def typed_component_def memset_def image_memory_def)
  ultimately show ?thesis by simp
qed

text \<open>
  C6.  A type constructed with no flat image, no procedure flagged initializer, no
  component flagged is-descriptor and no component whose nested type is initializable and
  not zero-initializable: \<open>Initialize\<close> makes no call and leaves the memory, so every byte
  of the instance, unchanged.
\<close>

theorem Initialize_nothing_to_do:
  assumes "init = 0"
    and "\<forall>p\<in>set tbp. \<not> IsInitializerProcedure p"
    and "\<forall>c\<in>set ca. \<not> IsDescriptor c"
    and "\<forall>c\<in>set ca. \<not> needsComponentInit c"
  shows "Initialize ext (DerivedType_ctor n kps lps tp ca tbp init sz) instance s = s"
proof -
  let ?dt = "DerivedType_ctor n kps lps tp ca tbp init sz"
  have "initTBP ?dt = - 1" using assms(2) by (rule ctor_initTBP_none)
  moreover have "dt_flags ?dt = scanComponents ca (snd (scanProcedures tbp 0 (- 1, 0)))"
    using assms(1,2) by (simp add: ctor_flags scanProcedures_no_initializer)
  moreover have "\<not> bit (scanComponents ca (snd (scanProcedures tbp 0 (- 1, 0)))) 3"
    using assms(3) by (simp add: scanComponents_init_zero scanProcedures_other_bits)
  moreover have "\<not> bit (scanComponents ca (snd (scanProcedures tbp 0 (- 1, 0)))) 4"
    using assms(4) by (simp add: scanComponents_init_component scanProcedures_other_bits)
  ultimately show ?thesis
    using assms(1)
    by (simp add: Initialize_def ctor_fields INIT_ZERO_test INIT_COMPONENT_test)
qed

theorem Initialize_nothing_to_do_witness:
  "Initialize stamping_extern
     (DerivedType_ctor ''t'' 0 0 [] [plain_component, typed_component 0 base_type 8]
        [plain_procedure, rank0_final] 0 72) 2000 start_state = start_state"
proof -
  have h1: "(0::nat) = 0" by simp
  have h2: "\<forall>p\<in>set [plain_procedure, rank0_final]. \<not> IsInitializerProcedure p"
    by (simp add: IsInitializerProcedure_def plain_procedure_def rank0_final_def)
  have h3: "\<forall>c\<in>set [plain_component, typed_component 0 base_type 8]. \<not> IsDescriptor c"
    by (simp add: IsDescriptor_def plain_component_def typed_component_def)
  have z: "IsInitZero base_type"
    by (simp add: IsInitZero_def base_type_def DerivedType_ctor_def elemental_final_def
          allocatable_component_def IsDescriptor_def INITIALIZER_def ASSUMED_RANK_FINAL_def
          IS_DESCRIPTOR_def FINALIZABLE_def INIT_ZERO_def)
  have h4: "\<forall>c\<in>set [plain_component, typed_component 0 base_type 8]. \<not> needsComponentInit c"
    using z
    by (simp add: needsComponentInit_def nestedType_def plain_component_def
          typed_component_def)
  show ?thesis
    by (rule Initialize_nothing_to_do [OF h1 h2 h3 h4])
qed

section \<open>The initializer procedure\<close>

lemma ctor_initTBP_procedure:
  assumes "filter IsInitializerProcedure tbp \<noteq> []"
  shows "0 \<le> initTBP (DerivedType_ctor n kps lps tp ca tbp init sz) \<and>
         nat (initTBP (DerivedType_ctor n kps lps tp ca tbp init sz)) < length tbp \<and>
         tbp ! nat (initTBP (DerivedType_ctor n kps lps tp ca tbp init sz)) =
           last (filter IsInitializerProcedure tbp) \<and>
         (\<forall>k. nat (initTBP (DerivedType_ctor n kps lps tp ca tbp init sz)) < k \<and> k < length tbp
            \<longrightarrow> \<not> IsInitializerProcedure (tbp ! k))"
proof -
  from assms have "\<exists>p\<in>set tbp. IsInitializerProcedure p"
    by (simp add: filter_empty_conv)
  from ctor_initTBP_last [OF this, of n kps lps tp ca init sz]
  obtain pre p post where sp: "tbp = pre @ p # post" "IsInitializerProcedure p"
    "\<forall>q\<in>set post. \<not> IsInitializerProcedure q"
    and ix: "initTBP (DerivedType_ctor n kps lps tp ca tbp init sz) = int (length pre)"
    by blast
  have "filter IsInitializerProcedure post = []"
    using sp(3) by (simp add: filter_empty_conv)
  then have l: "last (filter IsInitializerProcedure tbp) = p"
    using sp(1,2) by simp
  have later: "\<not> IsInitializerProcedure (tbp ! k)" if "length pre < k" "k < length tbp" for k
  proof -
    from that sp(1) have "tbp ! k = post ! (k - Suc (length pre))"
      by (simp add: nth_append nth_Cons')
    moreover from that sp(1) have "k - Suc (length pre) < length post"
      by simp
    ultimately show ?thesis using sp(3) by (metis nth_mem)
  qed
  have nth: "tbp ! length pre = p" and len: "length pre < length tbp"
    using sp(1) by simp_all
  show ?thesis
    unfolding ix using nth l later len by simp
qed

lemma ctor_flags_with_initializer:
  assumes "filter IsInitializerProcedure tbp \<noteq> []"
  shows "\<not> bit (dt_flags (DerivedType_ctor n kps lps tp ca tbp init sz)) 3"
    and "\<not> bit (dt_flags (DerivedType_ctor n kps lps tp ca tbp init sz)) 4"
proof -
  from ctor_initTBP_procedure [OF assms, of n kps lps tp ca init sz]
  have "\<not> fst (scanProcedures tbp 0 (- 1, 0)) < 0"
    by (simp add: ctor_fields)
  then have "dt_flags (DerivedType_ctor n kps lps tp ca tbp init sz)
      = snd (scanProcedures tbp 0 (- 1, 0))"
    by (simp add: ctor_flags)
  then show "\<not> bit (dt_flags (DerivedType_ctor n kps lps tp ca tbp init sz)) 3"
    and "\<not> bit (dt_flags (DerivedType_ctor n kps lps tp ca tbp init sz)) 4"
    by (simp_all add: scanProcedures_other_bits)
qed

lemma Initialize_initializer:
  assumes "init = 0" and "filter IsInitializerProcedure tbp \<noteq> []"
  shows "Initialize ext (DerivedType_ctor n kps lps tp ca tbp init sz) instance s =
           (if host (code (last (filter IsInitializerProcedure tbp))) \<noteq> 0
              then perform ext
                     (HostProcedure (host (code (last (filter IsInitializerProcedure tbp))))
                        instance) s
            else s)"
  using assms(1) ctor_initTBP_procedure [OF assms(2), of n kps lps tp ca init sz]
    ctor_flags_with_initializer [OF assms(2), of n kps lps tp ca init sz]
  by (simp add: Initialize_def ctor_fields INIT_ZERO_test INIT_COMPONENT_test)

text \<open>
  C4, as stated, fails: the one procedure flagged initializer may have a null host entry
  point, and line 63 guards the call.  \<open>Initialize\<close> then makes no call at all.
\<close>

theorem Initialize_single_initializer_counterexample:
  "filter IsInitializerProcedure [plain_procedure, initializer_procedure 0] =
     [initializer_procedure 0] \<and>
   calls (Initialize inert_extern
            (DerivedType_ctor ''t'' 0 0 [] [] [plain_procedure, initializer_procedure 0] 0 8)
            2000 start_state) = []"
  by (simp add: IsInitializerProcedure_def plain_procedure_def initializer_procedure_def
        INITIALIZER_def ASSUMED_RANK_FINAL_def Initialize_def DerivedType_ctor_def
        start_state_def INIT_ZERO_def INIT_COMPONENT_def)

text \<open>
  C4, amended.  A type constructed with no flat image and exactly one procedure \<open>p\<close>
  flagged initializer: \<open>Initialize\<close> calls \<open>p\<close> through its host entry point with the
  instance address when that entry point is not null, and makes no call when it is null.
  In both cases there is no zero-fill and no per-component initialization: the
  constructor computed neither \<open>INIT_ZERO\<close> nor \<open>INIT_COMPONENT\<close>.
\<close>

theorem Initialize_single_initializer:
  assumes "init = 0" and "filter IsInitializerProcedure tbp = [p]"
  shows "Initialize ext (DerivedType_ctor n kps lps tp ca tbp init sz) instance s =
           (if host (code p) \<noteq> 0
              then perform ext (HostProcedure (host (code p)) instance) s else s) \<and>
         dt_flags (DerivedType_ctor n kps lps tp ca tbp init sz) AND INIT_ZERO = 0 \<and>
         dt_flags (DerivedType_ctor n kps lps tp ca tbp init sz) AND INIT_COMPONENT = 0"
proof -
  from assms(2) have ne: "filter IsInitializerProcedure tbp \<noteq> []" by simp
  have "Initialize ext (DerivedType_ctor n kps lps tp ca tbp init sz) instance s =
           (if host (code p) \<noteq> 0
              then perform ext (HostProcedure (host (code p)) instance) s else s)"
    using Initialize_initializer [OF assms(1) ne, of ext n kps lps tp ca sz "instance" s]
    by (simp add: assms(2))
  moreover have "dt_flags (DerivedType_ctor n kps lps tp ca tbp init sz) AND INIT_ZERO = 0"
    using ctor_flags_with_initializer(1)[OF ne, of n kps lps tp ca init sz]
      INIT_ZERO_test [of "dt_flags (DerivedType_ctor n kps lps tp ca tbp init sz)"]
    by simp
  moreover have "dt_flags (DerivedType_ctor n kps lps tp ca tbp init sz) AND INIT_COMPONENT = 0"
    using ctor_flags_with_initializer(2)[OF ne, of n kps lps tp ca init sz]
      INIT_COMPONENT_test [of "dt_flags (DerivedType_ctor n kps lps tp ca tbp init sz)"]
    by simp
  ultimately show ?thesis by simp
qed

theorem Initialize_single_initializer_witness:
  "calls (Initialize stamping_extern
     (DerivedType_ctor ''t'' 0 0 [] [allocatable_component 8, typed_component 0 image_type 2]
        [plain_procedure, initializer_procedure 4096, rank0_final] 0 4) 2000 start_state) =
     [HostProcedure 4096 2000] \<and>
   map (memory (Initialize stamping_extern
     (DerivedType_ctor ''t'' 0 0 [] [allocatable_component 8, typed_component 0 image_type 2]
        [plain_procedure, initializer_procedure 4096, rank0_final] 0 4) 2000 start_state))
     [1999, 2000, 2001, 2002, 2003, 2004] = [255, 170, 255, 255, 255, 255]"
proof -
  have h1: "(0::nat) = 0" by simp
  have h2: "filter IsInitializerProcedure
              [plain_procedure, initializer_procedure 4096, rank0_final] =
              [initializer_procedure 4096]"
    by (simp add: IsInitializerProcedure_def plain_procedure_def initializer_procedure_def
          rank0_final_def INITIALIZER_def)
  from Initialize_single_initializer [OF h1 h2, of stamping_extern "''t''" 0 0 "[]"
      "[allocatable_component 8, typed_component 0 image_type 2]" 4 2000 start_state]
  have "Initialize stamping_extern
     (DerivedType_ctor ''t'' 0 0 [] [allocatable_component 8, typed_component 0 image_type 2]
        [plain_procedure, initializer_procedure 4096, rank0_final] 0 4) 2000 start_state =
     perform stamping_extern (HostProcedure 4096 2000) start_state"
    by (simp add: initializer_procedure_def)
  then show ?thesis
    by (simp add: perform_def stamping_extern_def start_state_def image_memory_def)
qed

text \<open>
  C10, as stated, fails for the same reason: when the last procedure flagged initializer
  has a null host entry point, \<open>Initialize\<close> calls no procedure, the last one included.
\<close>

theorem Initialize_last_initializer_counterexample:
  "filter IsInitializerProcedure [initializer_procedure 4096, initializer_procedure 0] =
     [initializer_procedure 4096, initializer_procedure 0] \<and>
   initTBP (DerivedType_ctor ''t'' 0 0 [] []
              [initializer_procedure 4096, initializer_procedure 0] 0 8) = 1 \<and>
   calls (Initialize inert_extern
            (DerivedType_ctor ''t'' 0 0 [] []
               [initializer_procedure 4096, initializer_procedure 0] 0 8)
            2000 start_state) = []"
  by (simp add: IsInitializerProcedure_def initializer_procedure_def
        INITIALIZER_def ASSUMED_RANK_FINAL_def Initialize_def DerivedType_ctor_def
        start_state_def INIT_ZERO_def INIT_COMPONENT_def)

text \<open>
  C10, amended.  A type constructed with more than one procedure flagged initializer,
  with or without a flat image: the constructor caches the index of the last of them in
  table order (the procedure at the cached index is flagged, none after it is).  On such
  a type without a flat image \<open>Initialize\<close> calls that procedure, and no other, when its
  host entry point is not null, and makes no call when it is null.
\<close>

theorem Initialize_last_initializer:
  assumes "1 < length (filter IsInitializerProcedure tbp)"
  shows "0 \<le> initTBP (DerivedType_ctor n kps lps tp ca tbp init sz) \<and>
         nat (initTBP (DerivedType_ctor n kps lps tp ca tbp init sz)) < length tbp \<and>
         IsInitializerProcedure
           (tbp ! nat (initTBP (DerivedType_ctor n kps lps tp ca tbp init sz))) \<and>
         (\<forall>k. nat (initTBP (DerivedType_ctor n kps lps tp ca tbp init sz)) < k \<and> k < length tbp
            \<longrightarrow> \<not> IsInitializerProcedure (tbp ! k)) \<and>
         (init = 0 \<longrightarrow>
            Initialize ext (DerivedType_ctor n kps lps tp ca tbp init sz) instance s =
              (if host (code (tbp !
                    nat (initTBP (DerivedType_ctor n kps lps tp ca tbp init sz)))) \<noteq> 0
                 then perform ext
                        (HostProcedure
                           (host (code (tbp !
                              nat (initTBP (DerivedType_ctor n kps lps tp ca tbp init sz)))))
                           instance) s
               else s))"
proof -
  let ?dt = "DerivedType_ctor n kps lps tp ca tbp init sz"
  from assms have ne: "filter IsInitializerProcedure tbp \<noteq> []" by auto
  note ix = ctor_initTBP_procedure [OF ne, of n kps lps tp ca init sz]
  then have nth: "tbp ! nat (initTBP ?dt) = last (filter IsInitializerProcedure tbp)"
    by blast
  have "last (filter IsInitializerProcedure tbp) \<in> set (filter IsInitializerProcedure tbp)"
    using ne by (rule last_in_set)
  then have "IsInitializerProcedure (last (filter IsInitializerProcedure tbp))"
    by simp
  then have flagged: "IsInitializerProcedure (tbp ! nat (initTBP ?dt))"
    unfolding nth .
  have call: "init = 0 \<longrightarrow>
      Initialize ext ?dt instance s =
        (if host (code (tbp ! nat (initTBP ?dt))) \<noteq> 0
           then perform ext (HostProcedure (host (code (tbp ! nat (initTBP ?dt)))) instance) s
         else s)"
    unfolding nth using Initialize_initializer [OF _ ne] by blast
  from ix flagged call show ?thesis by blast
qed

theorem Initialize_last_initializer_witness:
  "initTBP (DerivedType_ctor ''t'' 0 0 [] [allocatable_component 8]
     [initializer_procedure 4096, plain_procedure, initializer_procedure 8192, rank0_final]
     0 4) = 2 \<and>
   initTBP (DerivedType_ctor ''t'' 0 0 [] [allocatable_component 8]
     [initializer_procedure 4096, plain_procedure, initializer_procedure 8192, rank0_final]
     1000 4) = 2 \<and>
   calls (Initialize stamping_extern
     (DerivedType_ctor ''t'' 0 0 [] [allocatable_component 8]
        [initializer_procedure 4096, plain_procedure, initializer_procedure 8192, rank0_final]
        0 4) 2000 start_state) = [HostProcedure 8192 2000]"
proof -
  let ?tbp = "[initializer_procedure 4096, plain_procedure, initializer_procedure 8192,
               rank0_final]"
  have h: "1 < length (filter IsInitializerProcedure ?tbp)"
    by (simp add: IsInitializerProcedure_def plain_procedure_def initializer_procedure_def
          rank0_final_def INITIALIZER_def)
  have flagged: "IsInitializerProcedure (?tbp ! k) = (k = 0 \<or> k = 2)" if "k < 4" for k
  proof -
    from that have "k = 0 \<or> k = 1 \<or> k = 2 \<or> k = 3" by auto
    then show ?thesis
      by (auto simp add: IsInitializerProcedure_def plain_procedure_def
            initializer_procedure_def rank0_final_def INITIALIZER_def)
  qed
  have index: "initTBP (DerivedType_ctor ''t'' 0 0 [] [allocatable_component 8] ?tbp init 4) = 2"
    for init
  proof -
    let ?k = "initTBP (DerivedType_ctor ''t'' 0 0 [] [allocatable_component 8] ?tbp init 4)"
    note t = Initialize_last_initializer [OF h, where ext = stamping_extern and n = "''t''"
        and kps = 0 and lps = 0 and tp = "[]" and ca = "[allocatable_component 8]" and sz = 4
        and s = start_state and init = init, of 2000]
    from t have k: "0 \<le> ?k" "nat ?k < 4" "IsInitializerProcedure (?tbp ! nat ?k)"
      and later: "\<And>j. nat ?k < j \<Longrightarrow> j < 4 \<Longrightarrow> \<not> IsInitializerProcedure (?tbp ! j)"
      by simp_all
    from k(2,3) have "nat ?k = 0 \<or> nat ?k = 2" by (simp add: flagged)
    moreover have "nat ?k \<noteq> 0"
    proof
      assume "nat ?k = 0"
      moreover have "IsInitializerProcedure (?tbp ! 2)"
        using flagged [of 2] by simp
      ultimately show False using later [of 2] by simp
    qed
    ultimately show ?thesis using k(1) by simp
  qed
  note t0 = Initialize_last_initializer [OF h, where ext = stamping_extern and n = "''t''"
      and kps = 0 and lps = 0 and tp = "[]" and ca = "[allocatable_component 8]" and sz = 4
      and s = start_state and init = 0, of 2000]
  from t0 have "Initialize stamping_extern
     (DerivedType_ctor ''t'' 0 0 [] [allocatable_component 8] ?tbp 0 4) 2000 start_state =
     (if host (code (?tbp ! nat 2)) \<noteq> 0
        then perform stamping_extern (HostProcedure (host (code (?tbp ! nat 2))) 2000)
               start_state
      else start_state)"
    unfolding index by blast
  then have r: "Initialize stamping_extern
     (DerivedType_ctor ''t'' 0 0 [] [allocatable_component 8] ?tbp 0 4) 2000 start_state =
     perform stamping_extern (HostProcedure 8192 2000) start_state"
    by (simp add: initializer_procedure_def)
  show ?thesis
    unfolding r by (simp add: index perform_def start_state_def)
qed

section \<open>Finalizability\<close>

text \<open>
  C7.  For a type as the constructor produces it, \<open>IsFinalizable()\<close> is true exactly when
  one of its type-bound procedures has a nonzero finalizer bitmask or the
  assumed-rank-final flag; it is false when every procedure has a zero bitmask and the
  flag clear.
\<close>

theorem IsFinalizable_iff:
  "IsFinalizable (DerivedType_ctor n kps lps tp ca tbp init sz) =
     (\<exists>p\<in>set tbp. finalRank p \<noteq> 0 \<or> flags p AND ASSUMED_RANK_FINAL \<noteq> 0)"
  by (rule ctor_finalizable)

theorem IsFinalizable_iff_witness:
  "IsFinalizable (DerivedType_ctor ''t'' 0 0 [] [] [plain_procedure, rank0_final] 0 8) \<and>
   IsFinalizable (DerivedType_ctor ''t'' 0 0 [] [] [assumed_rank_final] 0 8) \<and>
   \<not> IsFinalizable (DerivedType_ctor ''t'' 0 0 [] [] [plain_procedure, plain_procedure] 0 8)"
  using IsFinalizable_iff [of "''t''" 0 0 "[]" "[]" "[plain_procedure, rank0_final]" 0 8]
    IsFinalizable_iff [of "''t''" 0 0 "[]" "[]" "[assumed_rank_final]" 0 8]
    IsFinalizable_iff [of "''t''" 0 0 "[]" "[]" "[plain_procedure, plain_procedure]" 0 8]
  by (simp add: rank0_final_def assumed_rank_final_def plain_procedure_def
        ASSUMED_RANK_FINAL_def)

text \<open>
  C8.  \<open>IsFinalForRank(r)\<close> is true for every \<open>r\<close> when the assumed-rank-final flag is set;
  when the flag is clear and \<open>r\<close> is a rank from 0 to 31, it is true exactly when bit \<open>r\<close>
  of the 32-bit finalizer bitmask is 1.
\<close>

theorem IsFinalForRank_correct:
  "(flags tbp AND ASSUMED_RANK_FINAL \<noteq> 0 \<longrightarrow> IsFinalForRank tbp r = Some True) \<and>
   (flags tbp AND ASSUMED_RANK_FINAL = 0 \<longrightarrow> 0 \<le> r \<longrightarrow> r < 32 \<longrightarrow>
      IsFinalForRank tbp r = Some (bit (finalRank tbp) (nat r)))"
  by (simp add: IsFinalForRank_def shift_test)

theorem IsFinalForRank_correct_witness:
  "IsFinalForRank rank0_final 0 = Some True \<and>
   IsFinalForRank rank0_final 1 = Some False \<and>
   IsFinalForRank rank0_final 31 = Some False \<and>
   IsFinalForRank assumed_rank_final 0 = Some True \<and>
   IsFinalForRank assumed_rank_final 1 = Some True \<and>
   IsFinalForRank assumed_rank_final 31 = Some True"
  using IsFinalForRank_correct [of rank0_final 0] IsFinalForRank_correct [of rank0_final 1]
    IsFinalForRank_correct [of rank0_final 31] IsFinalForRank_correct [of assumed_rank_final 0]
    IsFinalForRank_correct [of assumed_rank_final 1]
    IsFinalForRank_correct [of assumed_rank_final 31]
  by (simp add: rank0_final_def assumed_rank_final_def ASSUMED_RANK_FINAL_def)

section \<open>Destruction\<close>

lemma performAll_Nil: "performAll ext [] s = s"
  by (simp add: performAll_def)

lemma performAll_Cons: "performAll ext (c # cs) s = performAll ext cs (perform ext c s)"
  by (simp add: performAll_def)

lemma performAll_append:
  "performAll ext (xs @ ys) s = performAll ext ys (performAll ext xs s)"
  by (simp add: performAll_def)

lemma calls_performAll: "calls (performAll ext cs s) = calls s @ cs"
  by (induction cs arbitrary: s) (simp_all add: performAll_Nil performAll_Cons perform_def)

lemma CallFinalizers_calls:
  "CallFinalizers ext tbp instance s =
     performAll ext
       (map (\<lambda>p. HostProcedure (host (code p)) instance)
          (filter (\<lambda>p. IsScalarFinalizer p \<and> host (code p) \<noteq> 0) tbp)) s"
  by (induction tbp arbitrary: s)
     (simp_all add: performAll_Nil performAll_Cons IsScalarFinalizer_def)

lemma DestroyComponents_calls:
  "DestroyComponents ext ca instance finalize s =
     performAll ext (concat (map (componentCall instance finalize) ca)) s"
  by (induction ca arbitrary: s)
     (simp_all add: performAll_Nil performAll_Cons performAll_append componentCall_def
        split: option.splits)

text \<open>One level: the finalizers, then the non-parent components.\<close>

lemma level_calls:
  "DestroyNonParentComponents ext dt instance finalize
     (if finalize \<and> IsFinalizable dt
        then CallFinalizers ext (typeBoundProcedure dt) instance s else s) =
   performAll ext (levelCalls instance finalize dt) s"
  by (simp add: DestroyNonParentComponents_def DestroyComponents_calls CallFinalizers_calls
        levelCalls_def finalizerCalls_def componentCalls_def performAll_append performAll_Nil)

lemma DestroyScalarInstance_base:
  assumes "\<not> IsExtension dt"
  shows "DestroyScalarInstance ext dt instance finalize s =
           Inr (performAll ext (levelCalls instance finalize dt) s)"
  by (subst DestroyScalarInstance.simps) (simp only: Let_def level_calls, simp add: assms)

lemma DestroyScalarInstance_parent:
  assumes "IsExtension dt" and "parentType dt = Some p"
  shows "DestroyScalarInstance ext dt instance finalize s =
           DestroyScalarInstance ext p instance finalize
             (performAll ext (levelCalls instance finalize dt) s)"
proof -
  from assms obtain d a where d: "staticDescriptor (component dt ! 0) = Some d"
    "Addendum d = Some a" "derivedType a = Some p"
    by (auto simp add: parentType_def nestedType_def split: option.splits)
  show ?thesis
    by (subst DestroyScalarInstance.simps) (simp only: Let_def level_calls, simp add: assms(1) d)
qed

lemma usableParents_parent:
  assumes "usableParents dt" and "parentType dt = Some p"
  shows "usableParents p"
  using assms
  by (simp add: usableParents_def inheritanceChain_def ancestors.simps [of dt])

text \<open>
  C2, as stated, fails in its part (1): a procedure flagged elemental with bit 0 of the
  bitmask set is not invoked when its host entry point is null (the guard of line 101).
  The type below is finalizable and its one procedure is such a finalizer; destroying an
  instance with \<open>finalize\<close> set invokes nothing.
\<close>

theorem DestroyScalarInstance_chain_counterexample:
  "IsFinalizable (DerivedType_ctor ''t'' 0 0 [] [] [elemental_final 0] 0 8) \<and>
   flags (elemental_final 0) AND ELEMENTAL \<noteq> 0 \<and>
   finalRank (elemental_final 0) AND 1 \<noteq> 0 \<and>
   DestroyScalarInstance inert_extern
     (DerivedType_ctor ''t'' 0 0 [] [] [elemental_final 0] 0 8) 2000 True start_state =
     Inr start_state"
proof -
  let ?T = "DerivedType_ctor ''t'' 0 0 [] [] [elemental_final 0] 0 8"
  have fin: "IsFinalizable ?T"
    by (simp add: IsFinalizable_def DerivedType_ctor_def elemental_final_def INITIALIZER_def
          ASSUMED_RANK_FINAL_def FINALIZABLE_def)
  have no_parent: "\<not> IsExtension ?T"
    by (simp add: IsExtension_def components_def ctor_fields)
  have "levelCalls 2000 True ?T = []"
    by (simp add: levelCalls_def finalizerCalls_def componentCalls_def ctor_fields
          elemental_final_def)
  with DestroyScalarInstance_base [OF no_parent, of inert_extern 2000 True start_state]
  have "DestroyScalarInstance inert_extern ?T 2000 True start_state = Inr start_state"
    by (simp add: performAll_Nil)
  with fin show ?thesis
    by (simp add: elemental_final_def ELEMENTAL_def)
qed

text \<open>
  C2, amended.  \<open>DestroyScalarInstance(instance, finalize)\<close> performs, level by level from
  the type itself up its parent chain to the base type, and on each level in this order:
  (1) when \<open>finalize\<close> is set and the level's type is finalizable, the calls, in table
  order, of exactly the procedures flagged elemental whose bitmask has bit 0 set and whose
  host entry point is not null; (2) the destruction of every non-parent component, each
  once, in declaration order; (3) when the type is an extension, the same for the parent
  type with the same instance and the same \<open>finalize\<close>.  This holds on every type whose
  chain names a parent at each extended type, so that no \<open>RUNTIME_CHECK\<close> fails (C3 is
  the other case).
\<close>

theorem DestroyScalarInstance_chain:
  assumes "usableParents dt"
  shows "DestroyScalarInstance ext dt instance finalize s =
           Inr (performAll ext
                  (concat (map (levelCalls instance finalize) (inheritanceChain dt))) s) \<and>
         calls (performAll ext
                  (concat (map (levelCalls instance finalize) (inheritanceChain dt))) s) =
           calls s @ concat (map (levelCalls instance finalize) (inheritanceChain dt))"
proof -
  have "DestroyScalarInstance ext dt instance finalize s =
           Inr (performAll ext
                  (concat (map (levelCalls instance finalize) (inheritanceChain dt))) s)"
    using assms
  proof (induction dt arbitrary: s rule: ancestors.induct)
    case (1 dt)
    show ?case
    proof (cases "IsExtension dt")
      case True
      with "1.prems" obtain p where p: "parentType dt = Some p"
        by (auto simp add: usableParents_def inheritanceChain_def)
      from "1.prems" p have "usableParents p" by (rule usableParents_parent)
      with "1.IH" p
      have "DestroyScalarInstance ext p instance finalize
              (performAll ext (levelCalls instance finalize dt) s) =
            Inr (performAll ext
                   (concat (map (levelCalls instance finalize) (inheritanceChain p)))
                   (performAll ext (levelCalls instance finalize dt) s))"
        by blast
      then show ?thesis
        using True p
        by (simp add: DestroyScalarInstance_parent inheritanceChain_def
              ancestors.simps [of dt] performAll_append)
    next
      case False
      then have "parentType dt = None" by (simp add: parentType_def)
      with False show ?thesis
        by (simp add: DestroyScalarInstance_base inheritanceChain_def
              ancestors.simps [of dt])
    qed
  qed
  then show ?thesis by (simp add: calls_performAll)
qed

text \<open>The three-level chain of the concrete tables: grandchild, child, base.\<close>

lemma example_flags:
  "dt_flags base_type = 12" "dt_flags child_type = 20" "dt_flags grandchild_type = 28"
  "dt_flags image_type = 0"
proof -
  show "dt_flags image_type = 0"
    by (simp add: image_type_def DerivedType_ctor_def)
  then have i: "IsInitializable image_type \<and> \<not> IsInitZero image_type"
    by (simp add: IsInitializable_def IsInitZero_def) (simp add: image_type_def ctor_fields)
  show b: "dt_flags base_type = 12"
    by (simp add: base_type_def DerivedType_ctor_def elemental_final_def
          allocatable_component_def IsDescriptor_def INITIALIZER_def ASSUMED_RANK_FINAL_def
          IS_DESCRIPTOR_def FINALIZABLE_def INIT_ZERO_def)
  show c: "dt_flags child_type = 20"
    using i
    by (simp add: child_type_def DerivedType_ctor_def elemental_final_def vector_final_def
          typed_component_def plain_component_def IsDescriptor_def INITIALIZER_def
          ASSUMED_RANK_FINAL_def IS_DESCRIPTOR_def FINALIZABLE_def INIT_COMPONENT_def)
  have "IsInitializable child_type \<and> \<not> IsInitZero child_type"
    by (simp add: IsInitializable_def IsInitZero_def c INIT_ZERO_def INIT_COMPONENT_def)
  then show "dt_flags grandchild_type = 28"
    by (simp add: grandchild_type_def DerivedType_ctor_def elemental_final_def
          plain_procedure_def typed_component_def allocatable_component_def IsDescriptor_def
          INITIALIZER_def ASSUMED_RANK_FINAL_def IS_DESCRIPTOR_def FINALIZABLE_def
          INIT_ZERO_def INIT_COMPONENT_def)
qed

lemma example_tables:
  "component base_type = [allocatable_component 8]"
  "typeBoundProcedure base_type = [elemental_final 4096]"
  "component child_type =
     [typed_component 1 base_type 0, plain_component, typed_component 0 image_type 64]"
  "typeBoundProcedure child_type = [vector_final, elemental_final 8192]"
  "component grandchild_type = [typed_component 1 child_type 0, allocatable_component 72]"
  "typeBoundProcedure grandchild_type =
     [elemental_final 20480, plain_procedure, elemental_final 24576]"
  by (simp_all add: base_type_def child_type_def grandchild_type_def ctor_fields)

lemma example_extensions:
  "IsExtension grandchild_type" "IsExtension child_type" "\<not> IsExtension base_type"
  by (simp_all add: IsExtension_def components_def IsParent_def PARENT_def example_tables
        typed_component_def allocatable_component_def)

lemma example_parents:
  "parentType grandchild_type = Some child_type"
  "parentType child_type = Some base_type"
  "parentType base_type = None"
  by (simp_all add: parentType_def example_extensions nestedType_def example_tables
        typed_component_def)

lemma example_chain:
  "ancestors base_type = []"
  "ancestors child_type = [base_type]"
  "ancestors grandchild_type = [child_type, base_type]"
  by (simp_all add: ancestors.simps [of base_type] ancestors.simps [of child_type]
        ancestors.simps [of grandchild_type] example_parents)

lemma example_levels:
  "levelCalls 2000 True grandchild_type =
     [HostProcedure 20480 2000, HostProcedure 24576 2000, DescriptorDeallocate 2072 True]"
  "levelCalls 2000 True child_type =
     [HostProcedure 8192 2000,
      DescriptorDestroy (DescriptorData (Some (DescriptorAddendumData (Some image_type))))
        2064 True]"
  "levelCalls 2000 True base_type = [HostProcedure 4096 2000, DescriptorDeallocate 2008 True]"
  by (simp_all add: levelCalls_def finalizerCalls_def componentCalls_def componentCall_def
        IsFinalizable_def example_flags FINALIZABLE_def IsScalarFinalizer_def ELEMENTAL_def
        IsParent_def PARENT_def IsDescriptor_def IS_DESCRIPTOR_def Locate_def
        example_tables elemental_final_def vector_final_def plain_procedure_def
        typed_component_def allocatable_component_def plain_component_def)

theorem DestroyScalarInstance_chain_witness:
  "DestroyScalarInstance inert_extern grandchild_type 2000 True start_state =
     Inr \<lparr>memory = image_memory,
          calls = [HostProcedure 20480 2000, HostProcedure 24576 2000,
                   DescriptorDeallocate 2072 True,
                   HostProcedure 8192 2000,
                   DescriptorDestroy
                     (DescriptorData (Some (DescriptorAddendumData (Some image_type))))
                     2064 True,
                   HostProcedure 4096 2000, DescriptorDeallocate 2008 True]\<rparr>"
proof -
  have h: "usableParents grandchild_type"
    by (simp add: usableParents_def inheritanceChain_def example_chain example_parents
          example_extensions)
  from DestroyScalarInstance_chain [OF h, of inert_extern 2000 True start_state]
  have "DestroyScalarInstance inert_extern grandchild_type 2000 True start_state =
     Inr (performAll inert_extern
            (concat (map (levelCalls 2000 True) (inheritanceChain grandchild_type)))
            start_state)"
    by blast
  then show ?thesis
    by (simp add: inheritanceChain_def example_chain example_levels performAll_def
          perform_def inert_extern_def start_state_def)
qed

text \<open>
  C3.  An extended type (component 0 flagged parent) whose parent component has no static
  descriptor, or whose static descriptor has no addendum, or whose addendum names no
  derived type: \<open>DestroyScalarInstance\<close> ends in the failed \<open>RUNTIME_CHECK\<close> of that pointer.
  The state it stops in is the one after this level's finalizers and components: nothing
  of a parent type has been done.
\<close>

theorem DestroyScalarInstance_unusable_parent:
  assumes "IsExtension dt"
  shows "(staticDescriptor (component dt ! 0) = None \<longrightarrow>
            DestroyScalarInstance ext dt instance finalize s =
              Inl (CheckFailed ''staticParentDescriptor'',
                   performAll ext (levelCalls instance finalize dt) s)) \<and>
         (\<forall>d. staticDescriptor (component dt ! 0) = Some d \<and> Addendum d = None \<longrightarrow>
            DestroyScalarInstance ext dt instance finalize s =
              Inl (CheckFailed ''parentAddendum'',
                   performAll ext (levelCalls instance finalize dt) s)) \<and>
         (\<forall>d a. staticDescriptor (component dt ! 0) = Some d \<and> Addendum d = Some a \<and>
                 derivedType a = None \<longrightarrow>
            DestroyScalarInstance ext dt instance finalize s =
              Inl (CheckFailed ''parentType'',
                   performAll ext (levelCalls instance finalize dt) s))"
  by (subst DestroyScalarInstance.simps, subst DestroyScalarInstance.simps,
      subst DestroyScalarInstance.simps)
     (simp only: Let_def level_calls, simp add: assms)

theorem DestroyScalarInstance_unusable_parent_witness:
  "DestroyScalarInstance inert_extern (orphan_type None) 2000 True start_state =
     Inl (CheckFailed ''staticParentDescriptor'',
          \<lparr>memory = image_memory,
           calls = [HostProcedure 4096 2000, DescriptorDeallocate 2008 True]\<rparr>) \<and>
   DestroyScalarInstance inert_extern (orphan_type (Some (DescriptorData None))) 2000 True
       start_state =
     Inl (CheckFailed ''parentAddendum'',
          \<lparr>memory = image_memory,
           calls = [HostProcedure 4096 2000, DescriptorDeallocate 2008 True]\<rparr>) \<and>
   DestroyScalarInstance inert_extern
       (orphan_type (Some (DescriptorData (Some (DescriptorAddendumData None))))) 2000 True
       start_state =
     Inl (CheckFailed ''parentType'',
          \<lparr>memory = image_memory,
           calls = [HostProcedure 4096 2000, DescriptorDeallocate 2008 True]\<rparr>)"
proof -
  have tables: "component (orphan_type d) =
      [ComponentData ''parent'' 1 0 d 0, allocatable_component 8]"
    "typeBoundProcedure (orphan_type d) = [elemental_final 4096]" for d
    by (simp_all add: orphan_type_def ctor_fields)
  have fin: "IsFinalizable (orphan_type d)" for d
    by (simp add: orphan_type_def ctor_finalizable elemental_final_def)
  have h: "IsExtension (orphan_type d)" for d
    by (simp add: IsExtension_def components_def IsParent_def PARENT_def tables)
  have lv: "performAll inert_extern (levelCalls 2000 True (orphan_type d)) start_state =
      \<lparr>memory = image_memory,
       calls = [HostProcedure 4096 2000, DescriptorDeallocate 2008 True]\<rparr>" for d
    by (simp add: levelCalls_def finalizerCalls_def componentCalls_def componentCall_def
          fin IsScalarFinalizer_def ELEMENTAL_def
          IsParent_def PARENT_def IsDescriptor_def IS_DESCRIPTOR_def Locate_def tables
          elemental_final_def allocatable_component_def performAll_def perform_def
          inert_extern_def start_state_def)
  note a = DestroyScalarInstance_unusable_parent [OF h [of None],
      of inert_extern 2000 True start_state]
  note b = DestroyScalarInstance_unusable_parent [OF h [of "Some (DescriptorData None)"],
      of inert_extern 2000 True start_state]
  note c = DestroyScalarInstance_unusable_parent
      [OF h [of "Some (DescriptorData (Some (DescriptorAddendumData None)))"],
      of inert_extern 2000 True start_state]
  from a have "DestroyScalarInstance inert_extern (orphan_type None) 2000 True start_state =
     Inl (CheckFailed ''staticParentDescriptor'',
          performAll inert_extern (levelCalls 2000 True (orphan_type None)) start_state)"
    by (simp add: tables)
  moreover from b
  have "DestroyScalarInstance inert_extern (orphan_type (Some (DescriptorData None))) 2000
          True start_state =
     Inl (CheckFailed ''parentAddendum'',
          performAll inert_extern
            (levelCalls 2000 True (orphan_type (Some (DescriptorData None)))) start_state)"
    by (simp add: tables)
  moreover from c
  have "DestroyScalarInstance inert_extern
          (orphan_type (Some (DescriptorData (Some (DescriptorAddendumData None))))) 2000
          True start_state =
     Inl (CheckFailed ''parentType'',
          performAll inert_extern
            (levelCalls 2000 True
               (orphan_type (Some (DescriptorData (Some (DescriptorAddendumData None))))))
            start_state)"
    by (simp add: tables)
  ultimately show ?thesis by (simp add: lv)
qed

section \<open>Type extension\<close>

text \<open>
  C9.  \<open>A.Extends(B)\<close>, the walk along the parent components' nested-type pointers, is true
  exactly when \<open>B\<close> is one of the types of that chain: the parent of \<open>A\<close>, its parent, and
  so on.
\<close>

theorem Extends_iff_ancestor: "Extends a b = (b \<in> set (ancestors a))"
proof (induction a rule: ancestors.induct)
  case (1 dt)
  show ?case
  proof (cases "parentType dt")
    case None
    then show ?thesis
      by (simp add: Extends.simps [of dt b] ancestors.simps [of dt])
  next
    case (Some p)
    with "1.IH" have "Extends p b = (b \<in> set (ancestors p))" by blast
    with Some show ?thesis
      by (auto simp add: Extends.simps [of dt b] ancestors.simps [of dt])
  qed
qed

theorem Extends_iff_ancestor_witness:
  "Extends grandchild_type child_type \<and> Extends grandchild_type base_type \<and>
   Extends child_type base_type \<and> \<not> Extends child_type grandchild_type \<and>
   \<not> Extends base_type child_type \<and> \<not> Extends child_type child_type"
proof -
  have names: "dt_name base_type = ''base''" "dt_name child_type = ''child''"
    "dt_name grandchild_type = ''grandchild''"
    by (simp_all add: base_type_def child_type_def grandchild_type_def DerivedType_ctor_def
          split: prod.splits)
  have "child_type \<noteq> base_type" "grandchild_type \<noteq> child_type"
    "grandchild_type \<noteq> base_type"
    using names by auto
  then show ?thesis
    using Extends_iff_ancestor [of grandchild_type child_type]
      Extends_iff_ancestor [of grandchild_type base_type]
      Extends_iff_ancestor [of child_type base_type]
      Extends_iff_ancestor [of child_type grandchild_type]
      Extends_iff_ancestor [of base_type child_type]
      Extends_iff_ancestor [of child_type child_type]
    by (simp add: example_chain)
qed

end
